theory Spec2Isabelle
  imports Complex_Main
begin

section \<open>Data model of the map screen\<close>

text \<open>
  The development embeds the state handling of \<open>map-screen.component.tsx\<close> (the
  \<open>MapScreen\<close> component) and of the \<open>OmniboxDirections\<close> component it renders.

  A JavaScript slot that may hold \<open>undefined\<close>, \<open>null\<close> or a proper value is a value of
  \<open>'a js\<close>. The truthiness tests of the components are all on slots that hold objects, so
  \<open>Val\<close> is the truthy case; reading a property of \<open>undefined\<close> or \<open>null\<close> throws.
\<close>

datatype 'a js = Undefined | Null | Val 'a

datatype error = TypeError

datatype TravelState = NONE | PLANNING | TRAVELLING

text \<open>
  Coordinates are JavaScript numbers. No handler of the screen computes with them; they
  are only stored and handed to the geometry check.
\<close>

record Location =
  latitude :: real
  longitude :: real

type_synonym BuildingId = string

text \<open>
  The declarations of \<open>Building\<close>, \<open>POI\<close> and \<open>MarkerLocation\<close> live in
  \<open>types/main\<close>. The components read \<open>id\<close> and \<open>boundingBox\<close> of a building and
  \<open>displayName\<close> of whatever an endpoint holds; an endpoint holds either a building
  object or a point-of-interest / search-result object.
\<close>

record Building =
  id' :: BuildingId
  buildingDisplayName :: string
  boundingBox :: "Location list"

record POI =
  poiDisplayName :: string
  poiLocation :: Location

datatype MarkerLocation = OfBuilding Building | OfPOI POI

fun displayName :: "MarkerLocation \<Rightarrow> string" where
  "displayName (OfBuilding b) = buildingDisplayName b"
| "displayName (OfPOI p) = poiDisplayName p"

text \<open>
  The state slots of \<open>MapScreen\<close> (its \<open>useState\<close> calls) that the travel flow reads or
  writes. The slots \<open>currentRegion\<close>, \<open>zoomLevel\<close> and \<open>indoorInformation\<close> are written
  only by \<open>handleOnRegionChange\<close>, \<open>onIndoorViewEntry\<close> and
  \<open>onFloorPickerButtonPress\<close>, which touch nothing else, and are left out.
\<close>

record MapScreenState =
  showBuildingInfo :: bool
  tappedBuilding :: "BuildingId js"
  currentLocation :: "Location js"
  endLocation :: "MarkerLocation js"
  startLocation :: "MarkerLocation js"
  endLocationFocused :: bool
  travelState :: TravelState
  startLocationDisplay :: string

definition initialState :: MapScreenState where
  "initialState =
     \<lparr> showBuildingInfo = False,
       tappedBuilding = Null,
       currentLocation = Null,
       endLocation = Undefined,
       startLocation = Null,
       endLocationFocused = True,
       travelState = NONE,
       startLocationDisplay = [] \<rparr>"

text \<open>
  What the screen imports from modules that are not part of the embedded sources: the
  building registry and \<open>buildingToMarker\<close> (\<open>constants\<close>), \<open>isPointInPolygon\<close>
  (\<open>geolib\<close>), \<open>locationToSearchResult\<close> (\<open>UtilityService\<close>) and the two display
  texts (\<open>styles\<close>). They are parameters of the model.
\<close>

record Env =
  Buildings :: "Building list"
  isPointInPolygon :: "Location \<Rightarrow> Location list \<Rightarrow> bool"
  buildingToMarker :: "Building \<Rightarrow> MarkerLocation"
  locationToSearchResult :: "string \<Rightarrow> string \<Rightarrow> Location \<Rightarrow> MarkerLocation"
  FETCHING_CURRENT_LOCATION_DISPLAY_TEXT :: string
  CURRENT_LOCATION_DISPLAY_TEXT :: string

section \<open>Setter calls\<close>

text \<open>
  A handler is a closure of one render: it reads the state of that render and calls
  state setters with values. It is embedded as the list of calls it makes, in order,
  given the render state \<open>r\<close> it closes over. \<open>GetCurrentLocationAsync r\<close> is the call
  \<open>LocationService.getInstance().getCurrentLocationAsync()\<close> whose \<open>then\<close> and
  \<open>catch\<close> callbacks close over \<open>r\<close>.
\<close>

datatype Call =
    SetShowBuildingInfo bool
  | SetTappedBuilding "BuildingId js"
  | SetCurrentLocation "Location js"
  | SetEndLocation "MarkerLocation js"
  | SetStartLocation "MarkerLocation js"
  | SetEndLocationFocused bool
  | SetTravelState TravelState
  | SetStartLocationDisplay string
  | GetCurrentLocationAsync MapScreenState

text \<open>
  The running screen: the current state slots and the render states captured by the
  location lookups that have not settled yet.
\<close>

record World =
  screen :: MapScreenState
  pending :: "MapScreenState list"

definition initialWorld :: World where
  "initialWorld = \<lparr> screen = initialState, pending = [] \<rparr>"

fun perform :: "Call \<Rightarrow> World \<Rightarrow> World" where
  "perform (SetShowBuildingInfo v) w = w\<lparr>screen := (screen w)\<lparr>showBuildingInfo := v\<rparr>\<rparr>"
| "perform (SetTappedBuilding v) w = w\<lparr>screen := (screen w)\<lparr>tappedBuilding := v\<rparr>\<rparr>"
| "perform (SetCurrentLocation v) w = w\<lparr>screen := (screen w)\<lparr>currentLocation := v\<rparr>\<rparr>"
| "perform (SetEndLocation v) w = w\<lparr>screen := (screen w)\<lparr>endLocation := v\<rparr>\<rparr>"
| "perform (SetStartLocation v) w = w\<lparr>screen := (screen w)\<lparr>startLocation := v\<rparr>\<rparr>"
| "perform (SetEndLocationFocused v) w = w\<lparr>screen := (screen w)\<lparr>endLocationFocused := v\<rparr>\<rparr>"
| "perform (SetTravelState v) w = w\<lparr>screen := (screen w)\<lparr>travelState := v\<rparr>\<rparr>"
| "perform (SetStartLocationDisplay v) w =
     w\<lparr>screen := (screen w)\<lparr>startLocationDisplay := v\<rparr>\<rparr>"
| "perform (GetCurrentLocationAsync r) w = w\<lparr>pending := pending w @ [r]\<rparr>"

definition dispatch :: "Call list \<Rightarrow> World \<Rightarrow> World" where
  "dispatch cs w = fold perform cs w"

section \<open>Handlers of the map screen\<close>

text \<open>\<open>setBuildingMarkerLocation (building: Building | null)\<close>.\<close>

definition setBuildingMarkerLocation :: "MapScreenState \<Rightarrow> Building js \<Rightarrow> Call list" where
  "setBuildingMarkerLocation r building =
     (if travelState r = PLANNING then
        (if endLocationFocused r then [SetEndLocation (map_js OfBuilding building)]
         else [SetStartLocation (map_js OfBuilding building)])
      else [])"

definition onBuildingTap :: "MapScreenState \<Rightarrow> Building \<Rightarrow> Call list" where
  "onBuildingTap r tapped =
     (if travelState r = NONE then [SetShowBuildingInfo True] else [])
     @ [SetTappedBuilding (Val (id' tapped))]
     @ setBuildingMarkerLocation r (Val tapped)"

definition onClosePanel :: "Call list" where
  "onClosePanel = [SetShowBuildingInfo False, SetTappedBuilding Null]"

definition setUserCurrentLocation :: "Env \<Rightarrow> MapScreenState \<Rightarrow> Call list" where
  "setUserCurrentLocation env r =
     [SetStartLocationDisplay (FETCHING_CURRENT_LOCATION_DISPLAY_TEXT env),
      GetCurrentLocationAsync r]"

definition onPOIMarkerPress :: "Env \<Rightarrow> MapScreenState \<Rightarrow> POI js \<Rightarrow> Call list" where
  "onPOIMarkerPress env r poi =
     (if endLocationFocused r then
        [SetTravelState PLANNING]
        @ (if travelState r = NONE then setUserCurrentLocation env r else [])
        @ [SetEndLocation (map_js OfPOI poi)]
      else [SetStartLocation (map_js OfPOI poi)])"

text \<open>
  \<open>Buildings.find(...)\<close> returns the first element that passes the test, or
  \<open>undefined\<close>; a building object is truthy.
\<close>

definition setStartLocationBuilding :: "Env \<Rightarrow> MapScreenState \<Rightarrow> Location \<Rightarrow> Call list" where
  "setStartLocationBuilding env r coordinates =
     (case find (\<lambda>building. isPointInPolygon env coordinates (boundingBox building))
             (Buildings env) of
        Some isInBuilding \<Rightarrow>
          onBuildingTap r isInBuilding
          @ [SetStartLocation (Val (buildingToMarker env isInBuilding))]
      | None \<Rightarrow>
          [SetStartLocation
             (Val (locationToSearchResult env (CURRENT_LOCATION_DISPLAY_TEXT env)
                     (CURRENT_LOCATION_DISPLAY_TEXT env) coordinates))])"

text \<open>
  The two callbacks of the promise chain in \<open>setUserCurrentLocation\<close>: \<open>then\<close> receives
  \<open>response.coords\<close>, \<open>catch\<close> ignores its argument.
\<close>

definition getCurrentLocationAsync_then :: "Env \<Rightarrow> MapScreenState \<Rightarrow> Location \<Rightarrow> Call list" where
  "getCurrentLocationAsync_then env r coords =
     [SetCurrentLocation (Val coords)] @ setStartLocationBuilding env r coords"

definition getCurrentLocationAsync_catch :: "Call list" where
  "getCurrentLocationAsync_catch = [SetStartLocationDisplay []]"

text \<open>The render guards of \<open>MapScreen\<close>.\<close>

definition omniboxShown :: "MapScreenState \<Rightarrow> bool" where
  "omniboxShown s \<longleftrightarrow> travelState s = PLANNING \<or> travelState s = TRAVELLING"

definition searchShown :: "MapScreenState \<Rightarrow> bool" where
  "searchShown s \<longleftrightarrow> \<not> omniboxShown s \<and> travelState s = NONE"

text \<open>
  \<open>BuildingInformation\<close> is rendered only when \<open>travelState === TravelState.NONE\<close>
  and receives \<open>showBuildingInfo\<close>; the panel is on screen when both hold.
\<close>

definition buildingInformationVisible :: "MapScreenState \<Rightarrow> bool" where
  "buildingInformationVisible s \<longleftrightarrow> travelState s = NONE \<and> showBuildingInfo s"

section \<open>Handlers of the directions omnibox\<close>

text \<open>
  \<open>MapScreen\<close> binds the props \<open>setEndLocation\<close>, \<open>setStartLocation\<close>,
  \<open>setEndLocationFocused\<close>, \<open>setTravelState\<close> and \<open>setStartLocationDisplay\<close> of
  \<open>OmniboxDirections\<close> to its own setters, and the props \<open>endLocation\<close>,
  \<open>startLocation\<close>, \<open>endLocationFocused\<close> and \<open>startLocationDisplay\<close> to its slots,
  so the handlers below read a \<open>MapScreenState\<close> and make the same calls.
\<close>

definition backArrow_onPress :: "Call list" where
  "backArrow_onPress =
     [SetEndLocation Null, SetStartLocation Null, SetEndLocationFocused True,
      SetTravelState NONE]"

definition searchInputInitialLocation_onFocus :: "Call list" where
  "searchInputInitialLocation_onFocus = [SetEndLocationFocused False]"

definition searchInputDestinationLocation_onFocus :: "Call list" where
  "searchInputDestinationLocation_onFocus = [SetEndLocationFocused True]"

text \<open>The part of the start field's \<open>onBlur\<close> that calls a prop.\<close>

definition searchInputInitialLocation_onBlur :: "MapScreenState \<Rightarrow> Call list" where
  "searchInputInitialLocation_onBlur r =
     (case startLocation r of
        Val m \<Rightarrow> [SetStartLocationDisplay (displayName m)]
      | _ \<Rightarrow> [])"

text \<open>
  The \<open>setLocation\<close> prop handed to \<open>Autocomplete\<close>:
  \<open>endLocationFocused ? setEndLocation : setStartLocation\<close>, applied to a selection.
\<close>

definition autocomplete_setLocation :: "MapScreenState \<Rightarrow> MarkerLocation js \<Rightarrow> Call list" where
  "autocomplete_setLocation r location =
     (if endLocationFocused r then [SetEndLocation location] else [SetStartLocation location])"

text \<open>The effect \<open>useEffect(..., [startLocation])\<close>, as far as it calls a prop.\<close>

definition startLocation_effect :: "Env \<Rightarrow> MapScreenState \<Rightarrow> Call list" where
  "startLocation_effect env r =
     (case startLocation r of
        Val m \<Rightarrow> [SetStartLocationDisplay (displayName m)]
      | _ \<Rightarrow>
          (if startLocationDisplay r \<noteq> FETCHING_CURRENT_LOCATION_DISPLAY_TEXT env
           then [SetStartLocationDisplay []] else []))"

section \<open>Local state of the directions omnibox\<close>

text \<open>
  A \<open>Date\<close> is its time value in milliseconds; \<open>new Date()\<close> reads the clock, which the
  model takes as the argument \<open>now\<close>. \<open>SearchResult\<close> objects are endpoint objects.
\<close>

type_synonym Date = int

record OmniboxState =
  endLocationDisplay :: string
  startLocationSearchResults :: "MarkerLocation list js"
  endLocationSearchResults :: "MarkerLocation list js"
  date :: Date
  dateIsNow :: bool
  showTimePicker :: bool

text \<open>
  The \<open>useState\<close> initialisers of \<open>OmniboxDirections\<close>. The first one is the expression
  \<open>endLocation.displayName\<close>, evaluated when the component function runs.
\<close>

definition OmniboxDirections_init :: "Date \<Rightarrow> MapScreenState \<Rightarrow> error + OmniboxState" where
  "OmniboxDirections_init now props =
     (case endLocation props of
        Val m \<Rightarrow>
          Inr \<lparr> endLocationDisplay = displayName m,
                startLocationSearchResults = Null,
                endLocationSearchResults = Null,
                date = now,
                dateIsNow = True,
                showTimePicker = False \<rparr>
      | _ \<Rightarrow> Inl TypeError)"

text \<open>
  \<open>onDateChange\<close>; \<open>platformOS\<close> is \<open>Platform.OS\<close>. The test \<open>pickedDate == null\<close> holds
  for \<open>null\<close> and for \<open>undefined\<close>.
\<close>

definition onDateChange :: "string \<Rightarrow> Date \<Rightarrow> Date js \<Rightarrow> OmniboxState \<Rightarrow> OmniboxState" where
  "onDateChange platformOS now pickedDate s =
     (case pickedDate of
        Val d \<Rightarrow> s\<lparr>showTimePicker := (platformOS = ''ios''), date := d, dateIsNow := False\<rparr>
      | _ \<Rightarrow> s\<lparr>showTimePicker := (platformOS = ''ios''), date := now, dateIsNow := True\<rparr>)"

text \<open>
  The text of the time-picker button. \<open>showPickedTime\<close> belongs to \<open>UtilityService\<close>
  and is a parameter.
\<close>

definition timePickerButton_text :: "(Date \<Rightarrow> bool \<Rightarrow> string) \<Rightarrow> OmniboxState \<Rightarrow> string" where
  "timePickerButton_text showPickedTime s = ''DEPART '' @ showPickedTime (date s) (dateIsNow s)"

subsection \<open>The travel-mode switcher\<close>

text \<open>
  Modelled from the spec: the enum \<open>TravelMode\<close> is declared in \<open>types/main\<close>; the
  omnibox names its members \<open>ACCESSIBLE\<close> and \<open>WALKING\<close>, and the specification gives
  the closed set car, accessible, walking, bus, shuttle.
\<close>

datatype TravelMode = CAR | ACCESSIBLE | WALKING | BUS | SHUTTLE

text \<open>
  One \<open>TouchableOpacity\<close> of the switcher: the icon it shows, whether its style is
  \<open>styles.travelModeButtonSelected\<close>, and its \<open>onPressOut\<close> handler, given by the
  argument it passes to the \<open>setTravelMode\<close> prop (\<open>None\<close> for an element without a
  handler).
\<close>

record TouchableOpacity =
  icon :: string
  selected :: bool
  onPressOut :: "TravelMode option"

definition travelModeSwitcher :: "TravelMode js \<Rightarrow> TouchableOpacity list" where
  "travelModeSwitcher travelMode =
     [ \<lparr> icon = ''car'', selected = False, onPressOut = None \<rparr>,
       \<lparr> icon = ''wheelchair'', selected = (travelMode = Val ACCESSIBLE),
         onPressOut = Some ACCESSIBLE \<rparr>,
       \<lparr> icon = ''directions-walk'', selected = (travelMode = Val WALKING),
         onPressOut = Some WALKING \<rparr>,
       \<lparr> icon = ''directions-bus'', selected = False, onPressOut = None \<rparr>,
       \<lparr> icon = ''shuttle'', selected = False, onPressOut = None \<rparr> ]"

text \<open>
  Pressing an element of the switcher, given the \<open>setTravelMode\<close> prop of the omnibox. An
  element without a handler does nothing. A handler calls the prop with its mode; calling
  a prop the parent has not supplied throws. The result is what the call returns.
\<close>

definition pressOut :: "(TravelMode \<Rightarrow> 'a) js \<Rightarrow> TouchableOpacity \<Rightarrow> error + 'a option" where
  "pressOut setTravelMode b =
     (case onPressOut b of
        None \<Rightarrow> Inr None
      | Some m \<Rightarrow>
          (case setTravelMode of
             Val f \<Rightarrow> Inr (Some (f m))
           | _ \<Rightarrow> Inl TypeError))"

text \<open>
  \<open>MapScreen\<close> renders \<open>OmniboxDirections\<close> without the props \<open>travelMode\<close> and
  \<open>setTravelMode\<close>, so the omnibox reads both as \<open>undefined\<close> there.
\<close>

definition MapScreen_travelMode :: "TravelMode js" where
  "MapScreen_travelMode = Undefined"

definition MapScreen_setTravelMode :: "(TravelMode \<Rightarrow> unit) js" where
  "MapScreen_setTravelMode = Undefined"

text \<open>The button that stands for a travel mode, by position in the switcher.\<close>

fun travelModeButton :: "TravelMode \<Rightarrow> nat" where
  "travelModeButton CAR = 0"
| "travelModeButton ACCESSIBLE = 1"
| "travelModeButton WALKING = 2"
| "travelModeButton BUS = 3"
| "travelModeButton SHUTTLE = 4"

section \<open>Events of the running screen\<close>

text \<open>
  The components \<open>Search\<close> and \<open>LocationButton\<close> are rendered while
  \<open>travelState\<close> is \<open>NONE\<close>. \<open>Search\<close> is handed \<open>setUserCurrentLocation\<close>,
  \<open>setEndLocation\<close> and \<open>setTravelState\<close>; an event of it is any sequence of calls of
  these. \<open>LocationButton\<close> is handed \<open>setUserCurrentLocation\<close> (and
  \<open>animateToCurrentLocation\<close>, which writes no slot).
\<close>

datatype SearchCall =
    Search_setUserCurrentLocation
  | Search_setEndLocation "MarkerLocation js"
  | Search_setTravelState TravelState

fun searchCall :: "Env \<Rightarrow> MapScreenState \<Rightarrow> SearchCall \<Rightarrow> Call list" where
  "searchCall env r Search_setUserCurrentLocation = setUserCurrentLocation env r"
| "searchCall env r (Search_setEndLocation l) = [SetEndLocation l]"
| "searchCall env r (Search_setTravelState t) = [SetTravelState t]"

text \<open>
  The events that write a slot of \<open>MapScreenState\<close>. \<open>LookupResolved i c\<close> and
  \<open>LookupRejected i\<close> settle the \<open>i\<close>-th lookup in flight. \<open>StartInputChangeText t\<close> is
  the call of \<open>setStartLocationDisplay\<close> that \<open>updateSearchResults\<close> makes with a text
  \<open>t\<close>. The remaining handlers of the omnibox write its local slots only.

  The omnibox renders \<open>StartTravel\<close> when both endpoints are set and its own
  \<open>travelState\<close> prop equals \<open>PLANNING\<close>, and hands it \<open>setTravelState\<close> and
  \<open>onStartTravelPlan\<close>. \<open>MapScreen\<close> passes the omnibox no \<open>travelState\<close> prop; the
  event \<open>StartTravelPress\<close> is enabled as if it passed its own slot, which only adds
  behaviours to the screen. Modelled from the spec: \<open>StartTravel\<close> is not among the
  embedded sources; confirming the start of travel moves \<open>travelState\<close> to
  \<open>TRAVELLING\<close>.
\<close>

datatype Event =
    BuildingTap Building
  | POIMarkerPress "POI js"
  | ClosePanel
  | SearchCalls "SearchCall list"
  | LocationButtonPress
  | LookupResolved nat Location
  | LookupRejected nat
  | BackArrowPress
  | StartInputFocus
  | EndInputFocus
  | StartInputBlur
  | StartInputChangeText string
  | AutocompleteSelect "MarkerLocation js"
  | StartTravelPress

fun enabled :: "Event \<Rightarrow> World \<Rightarrow> bool" where
  "enabled (BuildingTap b) w = True"
| "enabled (POIMarkerPress p) w = True"
| "enabled ClosePanel w = (travelState (screen w) = NONE)"
| "enabled (SearchCalls cs) w = searchShown (screen w)"
| "enabled LocationButtonPress w = (travelState (screen w) = NONE)"
| "enabled (LookupResolved i c) w = (i < length (pending w))"
| "enabled (LookupRejected i) w = (i < length (pending w))"
| "enabled BackArrowPress w = omniboxShown (screen w)"
| "enabled StartInputFocus w = omniboxShown (screen w)"
| "enabled EndInputFocus w = omniboxShown (screen w)"
| "enabled StartInputBlur w = omniboxShown (screen w)"
| "enabled (StartInputChangeText t) w = omniboxShown (screen w)"
| "enabled (AutocompleteSelect l) w = omniboxShown (screen w)"
| "enabled StartTravelPress w =
     (omniboxShown (screen w) \<and>
      (case startLocation (screen w) of
         Val a \<Rightarrow> (case endLocation (screen w) of Val b \<Rightarrow> travelState (screen w) = PLANNING
                   | _ \<Rightarrow> False)
       | _ \<Rightarrow> False))"

fun calls :: "Env \<Rightarrow> Event \<Rightarrow> World \<Rightarrow> Call list" where
  "calls env (BuildingTap b) w = onBuildingTap (screen w) b"
| "calls env (POIMarkerPress p) w = onPOIMarkerPress env (screen w) p"
| "calls env ClosePanel w = onClosePanel"
| "calls env (SearchCalls cs) w = concat (map (searchCall env (screen w)) cs)"
| "calls env LocationButtonPress w = setUserCurrentLocation env (screen w)"
| "calls env (LookupResolved i c) w = getCurrentLocationAsync_then env (pending w ! i) c"
| "calls env (LookupRejected i) w = getCurrentLocationAsync_catch"
| "calls env BackArrowPress w = backArrow_onPress"
| "calls env StartInputFocus w = searchInputInitialLocation_onFocus"
| "calls env EndInputFocus w = searchInputDestinationLocation_onFocus"
| "calls env StartInputBlur w = searchInputInitialLocation_onBlur (screen w)"
| "calls env (StartInputChangeText t) w = [SetStartLocationDisplay t]"
| "calls env (AutocompleteSelect l) w = autocomplete_setLocation (screen w) l"
| "calls env StartTravelPress w = [SetTravelState TRAVELLING]"

text \<open>A settled promise leaves the lookups in flight.\<close>

fun settle :: "Event \<Rightarrow> World \<Rightarrow> World" where
  "settle (LookupResolved i c) w = w\<lparr>pending := take i (pending w) @ drop (Suc i) (pending w)\<rparr>"
| "settle (LookupRejected i) w = w\<lparr>pending := take i (pending w) @ drop (Suc i) (pending w)\<rparr>"
| "settle e w = w"

text \<open>
  The render that follows the calls of an event, from the world \<open>w\<close> before the event to
  the world \<open>w'\<close> after its calls. If the omnibox is shown, its component function
  evaluates \<open>endLocation.displayName\<close>; then the effect on \<open>startLocation\<close> runs if the
  omnibox has just been mounted or \<open>startLocation\<close> has changed.
\<close>

definition render :: "Env \<Rightarrow> World \<Rightarrow> World \<Rightarrow> error + World" where
  "render env w w' =
     (if omniboxShown (screen w') then
        (case endLocation (screen w') of
           Val m \<Rightarrow>
             Inr (if \<not> omniboxShown (screen w) \<or> startLocation (screen w') \<noteq> startLocation (screen w)
                  then dispatch (startLocation_effect env (screen w')) w'
                  else w')
         | _ \<Rightarrow> Inl TypeError)
      else Inr w')"

definition step :: "Env \<Rightarrow> Event \<Rightarrow> World \<Rightarrow> error + World" where
  "step env e w = render env w (dispatch (calls env e w) (settle e w))"

inductive reachable :: "Env \<Rightarrow> World \<Rightarrow> bool" for env :: Env where
  reachable_initial: "reachable env initialWorld"
| reachable_step:
    "reachable env w \<Longrightarrow> enabled e w \<Longrightarrow> step env e w = Inr w' \<Longrightarrow> reachable env w'"

text \<open>The relation between the travel state and the focused field.\<close>

definition travelInvariant :: "World \<Rightarrow> bool" where
  "travelInvariant w \<longleftrightarrow> (travelState (screen w) = NONE \<longrightarrow> endLocationFocused (screen w))"

section \<open>Concrete inputs\<close>

text \<open>
  A registry of two buildings whose outlines are rectangles with sides along the axes,
  the second inside the first, and a geometry check that is exact on such rectangles: a
  point is inside when some corner lies on either side of it in both coordinates.
\<close>

definition inRectangle :: "Location \<Rightarrow> Location list \<Rightarrow> bool" where
  "inRectangle p poly \<longleftrightarrow>
     list_ex (\<lambda>a. latitude a \<le> latitude p) poly \<and>
     list_ex (\<lambda>a. latitude p \<le> latitude a) poly \<and>
     list_ex (\<lambda>a. longitude a \<le> longitude p) poly \<and>
     list_ex (\<lambda>a. longitude p \<le> longitude a) poly"

definition rectangle :: "real \<Rightarrow> real \<Rightarrow> real \<Rightarrow> real \<Rightarrow> Location list" where
  "rectangle lat0 lat1 lng0 lng1 =
     [ \<lparr> latitude = lat0, longitude = lng0 \<rparr>, \<lparr> latitude = lat0, longitude = lng1 \<rparr>,
       \<lparr> latitude = lat1, longitude = lng1 \<rparr>, \<lparr> latitude = lat1, longitude = lng0 \<rparr> ]"

definition building_H :: Building where
  "building_H = \<lparr> id' = ''H'', buildingDisplayName = ''Hall'', boundingBox = rectangle 0 4 0 4 \<rparr>"

definition building_LB :: Building where
  "building_LB = \<lparr> id' = ''LB'', buildingDisplayName = ''Library'', boundingBox = rectangle 1 3 1 3 \<rparr>"

definition building_EV :: Building where
  "building_EV = \<lparr> id' = ''EV'', buildingDisplayName = ''EV'', boundingBox = rectangle 6 8 6 8 \<rparr>"

definition exampleEnv :: Env where
  "exampleEnv =
     \<lparr> Buildings = [building_EV, building_H, building_LB],
       isPointInPolygon = inRectangle,
       buildingToMarker = OfBuilding,
       locationToSearchResult = (\<lambda>name description c. OfPOI \<lparr> poiDisplayName = name, poiLocation = c \<rparr>),
       FETCHING_CURRENT_LOCATION_DISPLAY_TEXT = ''Fetching current location'',
       CURRENT_LOCATION_DISPLAY_TEXT = ''Current Location'' \<rparr>"

definition point :: "real \<Rightarrow> real \<Rightarrow> Location" where
  "point lat lng = \<lparr> latitude = lat, longitude = lng \<rparr>"

definition cafe :: POI where
  "cafe = \<lparr> poiDisplayName = ''Cafe'', poiLocation = point 5 5 \<rparr>"

text \<open>A world in state \<open>t\<close> with the cafe as destination and the given focus.\<close>

definition exampleWorld :: "TravelState \<Rightarrow> bool \<Rightarrow> World" where
  "exampleWorld t focused =
     \<lparr> screen = initialState\<lparr>travelState := t, endLocation := Val (OfPOI cafe),
                               endLocationFocused := focused\<rparr>,
       pending = [] \<rparr>"

definition exampleOmnibox :: OmniboxState where
  "exampleOmnibox =
     \<lparr> endLocationDisplay = ''Cafe'', startLocationSearchResults = Null,
       endLocationSearchResults = Null, date = 0, dateIsNow = False, showTimePicker = True \<rparr>"

text \<open>
  The worlds after the cafe is pressed on the initial screen, after the start field is then
  focused, and after the back arrow is then pressed.
\<close>

definition worldPlanning :: World where
  "worldPlanning =
     \<lparr> screen = initialState\<lparr>travelState := PLANNING, endLocation := Val (OfPOI cafe),
         startLocationDisplay := FETCHING_CURRENT_LOCATION_DISPLAY_TEXT exampleEnv\<rparr>,
       pending = [initialState] \<rparr>"

definition worldStartFocused :: World where
  "worldStartFocused = worldPlanning\<lparr>screen := (screen worldPlanning)\<lparr>endLocationFocused := False\<rparr>\<rparr>"

definition worldBack :: World where
  "worldBack =
     \<lparr> screen = initialState\<lparr>endLocation := Null,
         startLocationDisplay := FETCHING_CURRENT_LOCATION_DISPLAY_TEXT exampleEnv\<rparr>,
       pending = [initialState] \<rparr>"

section \<open>Dispatching calls\<close>

lemma dispatch_Nil: "dispatch [] w = w"
  by (simp add: dispatch_def)

lemma dispatch_Cons: "dispatch (c # cs) w = dispatch cs (perform c w)"
  by (simp add: dispatch_def)

lemma dispatch_append: "dispatch (cs @ ds) w = dispatch ds (dispatch cs w)"
  by (simp add: dispatch_def)

lemma perform_keeps:
  "(\<forall>t. c \<noteq> SetTravelState t) \<Longrightarrow> (\<forall>b. c \<noteq> SetEndLocationFocused b) \<Longrightarrow>
   travelState (screen (perform c w)) = travelState (screen w) \<and>
   endLocationFocused (screen (perform c w)) = endLocationFocused (screen w)"
  by (cases c) auto

lemma dispatch_keeps:
  "\<forall>c\<in>set cs. (\<forall>t. c \<noteq> SetTravelState t) \<and> (\<forall>b. c \<noteq> SetEndLocationFocused b) \<Longrightarrow>
   travelState (screen (dispatch cs w)) = travelState (screen w) \<and>
   endLocationFocused (screen (dispatch cs w)) = endLocationFocused (screen w)"
proof (induction cs arbitrary: w)
  case Nil
  show ?case by (simp add: dispatch_Nil)
next
  case (Cons c cs)
  have "travelState (screen (perform c w)) = travelState (screen w) \<and>
        endLocationFocused (screen (perform c w)) = endLocationFocused (screen w)"
    using Cons.prems by (intro perform_keeps) simp_all
  moreover have "travelState (screen (dispatch cs (perform c w))) = travelState (screen (perform c w)) \<and>
        endLocationFocused (screen (dispatch cs (perform c w))) = endLocationFocused (screen (perform c w))"
    using Cons.prems by (intro Cons.IH) simp
  ultimately show ?case by (simp add: dispatch_Cons)
qed

lemma dispatch_focus_keeps:
  "\<forall>c\<in>set cs. \<forall>b. c \<noteq> SetEndLocationFocused b \<Longrightarrow>
   endLocationFocused (screen (dispatch cs w)) = endLocationFocused (screen w)"
proof (induction cs arbitrary: w)
  case Nil
  show ?case by (simp add: dispatch_Nil)
next
  case (Cons c cs)
  have "endLocationFocused (screen (perform c w)) = endLocationFocused (screen w)"
    using Cons.prems by (cases c) auto
  moreover have "endLocationFocused (screen (dispatch cs (perform c w))) = endLocationFocused (screen (perform c w))"
    using Cons.prems by (intro Cons.IH) simp
  ultimately show ?case by (simp add: dispatch_Cons)
qed

lemma settle_screen: "screen (settle e w) = screen w"
  by (cases e) simp_all

lemma startLocation_effect_quiet:
  "\<forall>c\<in>set (startLocation_effect env r). (\<forall>t. c \<noteq> SetTravelState t) \<and> (\<forall>b. c \<noteq> SetEndLocationFocused b)"
  by (simp add: startLocation_effect_def split: js.splits)

lemma render_keeps:
  assumes "render env w w' = Inr w''"
  shows "travelState (screen w'') = travelState (screen w') \<and>
         endLocationFocused (screen w'') = endLocationFocused (screen w')"
proof -
  have "w'' = w' \<or> w'' = dispatch (startLocation_effect env (screen w')) w'"
    using assms by (auto simp: render_def split: if_splits js.splits)
  then show ?thesis
    using dispatch_keeps [OF startLocation_effect_quiet, of env "screen w'" w'] by auto
qed

lemma onBuildingTap_quiet:
  "\<forall>c\<in>set (onBuildingTap r b). (\<forall>t. c \<noteq> SetTravelState t) \<and> (\<forall>f. c \<noteq> SetEndLocationFocused f)"
  by (auto simp: onBuildingTap_def setBuildingMarkerLocation_def)

lemma setStartLocationBuilding_quiet:
  "\<forall>c\<in>set (setStartLocationBuilding env r C). (\<forall>t. c \<noteq> SetTravelState t) \<and> (\<forall>f. c \<noteq> SetEndLocationFocused f)"
  using onBuildingTap_quiet by (auto simp: setStartLocationBuilding_def split: option.splits)

lemma searchCalls_quiet:
  "\<forall>c\<in>set (concat (map (searchCall env r) cs)). \<forall>f. c \<noteq> SetEndLocationFocused f"
proof (induction cs)
  case Nil
  show ?case by simp
next
  case (Cons a cs)
  have "\<forall>c\<in>set (searchCall env r a). \<forall>f. c \<noteq> SetEndLocationFocused f"
    by (cases a) (simp_all add: setUserCurrentLocation_def)
  with Cons.IH show ?case by auto
qed

lemma calls_invariant:
  assumes "enabled e w" and "travelInvariant w"
  shows "travelInvariant (dispatch (calls env e w) (settle e w))"
proof (cases e)
  case (BuildingTap b)
  then show ?thesis
    using assms dispatch_keeps [OF onBuildingTap_quiet, of "screen w" b w]
    by (simp add: travelInvariant_def)
next
  case (POIMarkerPress p)
  then show ?thesis
    using assms
    by (simp add: travelInvariant_def onPOIMarkerPress_def setUserCurrentLocation_def
        dispatch_Cons dispatch_Nil)
next
  case ClosePanel
  then show ?thesis
    using assms by (simp add: travelInvariant_def onClosePanel_def dispatch_Cons dispatch_Nil)
next
  case (SearchCalls cs)
  then show ?thesis
    using assms dispatch_focus_keeps [OF searchCalls_quiet, of env "screen w" cs w]
    by (simp add: travelInvariant_def searchShown_def)
next
  case LocationButtonPress
  then show ?thesis
    using assms
    by (simp add: travelInvariant_def setUserCurrentLocation_def dispatch_Cons dispatch_Nil)
next
  case (LookupResolved i c)
  have "\<forall>x\<in>set (getCurrentLocationAsync_then env (pending w ! i) c).
          (\<forall>t. x \<noteq> SetTravelState t) \<and> (\<forall>f. x \<noteq> SetEndLocationFocused f)"
    using setStartLocationBuilding_quiet by (simp add: getCurrentLocationAsync_then_def)
  from dispatch_keeps [OF this, of "settle e w"] LookupResolved assms show ?thesis
    by (simp add: travelInvariant_def)
next
  case (LookupRejected i)
  then show ?thesis
    using assms
    by (simp add: travelInvariant_def getCurrentLocationAsync_catch_def dispatch_Cons dispatch_Nil)
next
  case BackArrowPress
  then show ?thesis
    by (simp add: travelInvariant_def backArrow_onPress_def dispatch_Cons dispatch_Nil)
next
  case StartInputFocus
  then show ?thesis
    using assms
    by (auto simp: travelInvariant_def searchInputInitialLocation_onFocus_def omniboxShown_def
        dispatch_Cons dispatch_Nil)
next
  case EndInputFocus
  then show ?thesis
    by (simp add: travelInvariant_def searchInputDestinationLocation_onFocus_def
        dispatch_Cons dispatch_Nil)
next
  case StartInputBlur
  then show ?thesis
    using assms
    by (simp add: travelInvariant_def searchInputInitialLocation_onBlur_def
        dispatch_Cons dispatch_Nil split: js.splits)
next
  case (StartInputChangeText t)
  then show ?thesis
    using assms by (simp add: travelInvariant_def dispatch_Cons dispatch_Nil)
next
  case (AutocompleteSelect l)
  then show ?thesis
    using assms
    by (auto simp: travelInvariant_def autocomplete_setLocation_def omniboxShown_def
        dispatch_Cons dispatch_Nil)
next
  case StartTravelPress
  then show ?thesis
    by (simp add: travelInvariant_def dispatch_Cons dispatch_Nil)
qed

lemma step_invariant:
  assumes "enabled e w" and "travelInvariant w" and "step env e w = Inr w'"
  shows "travelInvariant w'"
  using render_keeps [of env w "dispatch (calls env e w) (settle e w)" w']
    calls_invariant [OF assms(1,2), of env] assms(3)
  by (simp add: step_def travelInvariant_def)

lemma dispatch_last_SetStartLocation:
  "startLocation (screen (dispatch (cs @ [SetStartLocation v]) w)) = v"
  by (simp add: dispatch_append dispatch_Cons dispatch_Nil)

lemma example_inside:
  "inRectangle (point 2 2) (boundingBox building_H)"
  "inRectangle (point 2 2) (boundingBox building_LB)"
  "\<not> inRectangle (point 2 2) (boundingBox building_EV)"
  "inRectangle (point 7 7) (boundingBox building_EV)"
  "\<not> inRectangle (point 7 7) (boundingBox building_H)"
  "\<not> inRectangle (point 7 7) (boundingBox building_LB)"
  "\<not> inRectangle (point 5 5) (boundingBox building_EV)"
  "\<not> inRectangle (point 5 5) (boundingBox building_H)"
  "\<not> inRectangle (point 5 5) (boundingBox building_LB)"
  by (simp_all add: inRectangle_def point_def rectangle_def building_H_def building_LB_def
      building_EV_def)

lemmas handler_defs =
  onBuildingTap_def setBuildingMarkerLocation_def onPOIMarkerPress_def
  setUserCurrentLocation_def autocomplete_setLocation_def
  dispatch_Cons dispatch_Nil

lemma exampleWorld_simps:
  "travelState (screen (exampleWorld t f)) = t"
  "endLocationFocused (screen (exampleWorld t f)) = f"
  "endLocation (screen (exampleWorld t f)) = Val (OfPOI cafe)"
  "startLocation (screen (exampleWorld t f)) = Null"
  "tappedBuilding (screen (exampleWorld t f)) = Null"
  "showBuildingInfo (screen (exampleWorld t f)) = False"
  by (simp_all add: exampleWorld_def initialState_def)

lemma initialWorld_simps:
  "travelState (screen initialWorld) = NONE"
  "endLocationFocused (screen initialWorld) = True"
  "endLocation (screen initialWorld) = Undefined"
  "startLocation (screen initialWorld) = Null"
  "tappedBuilding (screen initialWorld) = Null"
  "showBuildingInfo (screen initialWorld) = False"
  "pending initialWorld = []"
  by (simp_all add: initialWorld_def initialState_def)

section \<open>Resolving the current location to a start endpoint\<close>

text \<open>
  C1, as stated, fails. The claim says that coordinates inside exactly one building's
  polygon resolve to that building and that all other coordinates resolve to the generic
  current-location marker. Here the point lies inside the polygons of two buildings of the
  registry, and \<open>setStartLocationBuilding\<close> sets the start endpoint to the first of them, not
  to the generic marker.
\<close>

theorem setStartLocationBuilding_two_matches:
  "building_H \<in> set (Buildings exampleEnv) \<and> building_LB \<in> set (Buildings exampleEnv) \<and>
   building_H \<noteq> building_LB \<and>
   isPointInPolygon exampleEnv (point 2 2) (boundingBox building_H) \<and>
   isPointInPolygon exampleEnv (point 2 2) (boundingBox building_LB) \<and>
   startLocation
     (screen (dispatch (setStartLocationBuilding exampleEnv initialState (point 2 2)) initialWorld))
     = Val (buildingToMarker exampleEnv building_H) \<and>
   startLocation
     (screen (dispatch (setStartLocationBuilding exampleEnv initialState (point 2 2)) initialWorld))
     \<noteq> Val (locationToSearchResult exampleEnv (CURRENT_LOCATION_DISPLAY_TEXT exampleEnv)
              (CURRENT_LOCATION_DISPLAY_TEXT exampleEnv) (point 2 2))"
proof -
  have "find (\<lambda>b. isPointInPolygon exampleEnv (point 2 2) (boundingBox b)) (Buildings exampleEnv)
        = Some building_H"
    by (simp add: exampleEnv_def example_inside)
  then have "startLocation
     (screen (dispatch (setStartLocationBuilding exampleEnv initialState (point 2 2)) initialWorld))
     = Val (OfBuilding building_H)"
    by (simp add: setStartLocationBuilding_def dispatch_last_SetStartLocation exampleEnv_def)
  moreover have "building_H \<noteq> building_LB"
    by (simp add: building_H_def building_LB_def)
  ultimately show ?thesis
    by (simp add: exampleEnv_def example_inside)
qed

text \<open>
  C1, amended. For all coordinates \<open>C\<close> handed to \<open>setStartLocationBuilding\<close>: if \<open>C\<close>
  lies inside no building's polygon, the start endpoint becomes the generic
  current-location marker made from \<open>C\<close>; if it lies inside at least one, the start
  endpoint becomes the marker of the first such building in the order of the registry;
  in particular, if exactly one building contains \<open>C\<close>, it is that building.
\<close>

theorem setStartLocationBuilding_first_match:
  "((\<forall>b\<in>set (Buildings env). \<not> isPointInPolygon env C (boundingBox b)) \<longrightarrow>
      startLocation (screen (dispatch (setStartLocationBuilding env r C) w)) =
        Val (locationToSearchResult env (CURRENT_LOCATION_DISPLAY_TEXT env)
               (CURRENT_LOCATION_DISPLAY_TEXT env) C)) \<and>
   (\<forall>i<length (Buildings env).
      isPointInPolygon env C (boundingBox (Buildings env ! i)) \<and>
      (\<forall>j<i. \<not> isPointInPolygon env C (boundingBox (Buildings env ! j))) \<longrightarrow>
      startLocation (screen (dispatch (setStartLocationBuilding env r C) w)) =
        Val (buildingToMarker env (Buildings env ! i))) \<and>
   (\<forall>b\<in>set (Buildings env).
      isPointInPolygon env C (boundingBox b) \<and>
      (\<forall>b'\<in>set (Buildings env). isPointInPolygon env C (boundingBox b') \<longrightarrow> b' = b) \<longrightarrow>
      startLocation (screen (dispatch (setStartLocationBuilding env r C) w)) =
        Val (buildingToMarker env b))"
proof -
  let ?P = "\<lambda>b. isPointInPolygon env C (boundingBox b)"
  let ?start = "startLocation (screen (dispatch (setStartLocationBuilding env r C) w))"
  have found: "?start = Val (buildingToMarker env b)" if "find ?P (Buildings env) = Some b" for b
    using that by (simp add: setStartLocationBuilding_def dispatch_last_SetStartLocation)
  have none: "?start = Val (locationToSearchResult env (CURRENT_LOCATION_DISPLAY_TEXT env)
               (CURRENT_LOCATION_DISPLAY_TEXT env) C)"
    if "\<forall>b\<in>set (Buildings env). \<not> ?P b"
  proof -
    from that have "find ?P (Buildings env) = None" by (simp add: find_None_iff)
    then show ?thesis
      by (simp add: setStartLocationBuilding_def dispatch_Cons dispatch_Nil)
  qed
  have first: "?start = Val (buildingToMarker env (Buildings env ! i))"
    if "i < length (Buildings env)" "?P (Buildings env ! i)"
      "\<forall>j<i. \<not> ?P (Buildings env ! j)" for i
  proof -
    from that have "find ?P (Buildings env) = Some (Buildings env ! i)"
      unfolding find_Some_iff by blast
    then show ?thesis by (rule found)
  qed
  have only: "?start = Val (buildingToMarker env b)"
    if "b \<in> set (Buildings env)" "?P b" "\<forall>b'\<in>set (Buildings env). ?P b' \<longrightarrow> b' = b" for b
  proof -
    from that(1,2) obtain b' where f: "find ?P (Buildings env) = Some b'"
      by (cases "find ?P (Buildings env)") (auto simp: find_None_iff)
    then have "b' \<in> set (Buildings env)" "?P b'"
      by (auto simp: find_Some_iff)
    with that(3) have "b' = b" by blast
    with f show ?thesis by (simp add: found)
  qed
  from none first only show ?thesis by blast
qed

theorem setStartLocationBuilding_first_match_witness:
  "Buildings exampleEnv = [building_EV, building_H, building_LB] \<and>
   \<not> isPointInPolygon exampleEnv (point 5 5) (boundingBox building_EV) \<and>
   \<not> isPointInPolygon exampleEnv (point 5 5) (boundingBox building_H) \<and>
   \<not> isPointInPolygon exampleEnv (point 5 5) (boundingBox building_LB) \<and>
   startLocation
     (screen (dispatch (setStartLocationBuilding exampleEnv initialState (point 5 5)) initialWorld))
     = Val (OfPOI \<lparr> poiDisplayName = ''Current Location'', poiLocation = point 5 5 \<rparr>) \<and>
   \<not> isPointInPolygon exampleEnv (point 2 2) (boundingBox building_EV) \<and>
   isPointInPolygon exampleEnv (point 2 2) (boundingBox building_H) \<and>
   isPointInPolygon exampleEnv (point 2 2) (boundingBox building_LB) \<and>
   startLocation
     (screen (dispatch (setStartLocationBuilding exampleEnv initialState (point 2 2)) initialWorld))
     = Val (OfBuilding building_H) \<and>
   isPointInPolygon exampleEnv (point 7 7) (boundingBox building_EV) \<and>
   \<not> isPointInPolygon exampleEnv (point 7 7) (boundingBox building_H) \<and>
   \<not> isPointInPolygon exampleEnv (point 7 7) (boundingBox building_LB) \<and>
   startLocation
     (screen (dispatch (setStartLocationBuilding exampleEnv initialState (point 7 7)) initialWorld))
     = Val (OfBuilding building_EV)"
proof -
  have none: "\<forall>b\<in>set (Buildings exampleEnv). \<not> isPointInPolygon exampleEnv (point 5 5) (boundingBox b)"
    by (simp add: exampleEnv_def example_inside)
  have len: "(1::nat) < length (Buildings exampleEnv)"
    by (simp add: exampleEnv_def)
  have at1: "Buildings exampleEnv ! 1 = building_H"
    by (simp add: exampleEnv_def)
  have first: "isPointInPolygon exampleEnv (point 2 2) (boundingBox (Buildings exampleEnv ! 1)) \<and>
     (\<forall>j<1. \<not> isPointInPolygon exampleEnv (point 2 2) (boundingBox (Buildings exampleEnv ! j)))"
    by (simp add: exampleEnv_def example_inside)
  have mem: "building_EV \<in> set (Buildings exampleEnv)"
    by (simp add: exampleEnv_def)
  have only: "isPointInPolygon exampleEnv (point 7 7) (boundingBox building_EV) \<and>
     (\<forall>b'\<in>set (Buildings exampleEnv).
        isPointInPolygon exampleEnv (point 7 7) (boundingBox b') \<longrightarrow> b' = building_EV)"
    by (simp add: exampleEnv_def example_inside)
  have params: "buildingToMarker exampleEnv = OfBuilding"
    "locationToSearchResult exampleEnv (CURRENT_LOCATION_DISPLAY_TEXT exampleEnv)
       (CURRENT_LOCATION_DISPLAY_TEXT exampleEnv) (point 5 5)
     = OfPOI \<lparr> poiDisplayName = ''Current Location'', poiLocation = point 5 5 \<rparr>"
    by (simp_all add: exampleEnv_def)
  note t5 = setStartLocationBuilding_first_match [of exampleEnv "point 5 5" initialState initialWorld]
  note t2 = setStartLocationBuilding_first_match [of exampleEnv "point 2 2" initialState initialWorld]
  note t7 = setStartLocationBuilding_first_match [of exampleEnv "point 7 7" initialState initialWorld]
  from t5 none params have a: "startLocation
     (screen (dispatch (setStartLocationBuilding exampleEnv initialState (point 5 5)) initialWorld))
     = Val (OfPOI \<lparr> poiDisplayName = ''Current Location'', poiLocation = point 5 5 \<rparr>)"
    by simp
  from t2 len first at1 params have b: "startLocation
     (screen (dispatch (setStartLocationBuilding exampleEnv initialState (point 2 2)) initialWorld))
     = Val (OfBuilding building_H)"
    by metis
  from t7 mem only params have c: "startLocation
     (screen (dispatch (setStartLocationBuilding exampleEnv initialState (point 7 7)) initialWorld))
     = Val (OfBuilding building_EV)"
    by metis
  from a b c show ?thesis by (simp add: exampleEnv_def example_inside)
qed

section \<open>Pressing the back arrow\<close>

text \<open>
  C2. Pressing the back arrow of the directions omnibox, in any state of the screen and
  whatever the two endpoints hold, leaves \<open>startLocation = null\<close>,
  \<open>endLocation = null\<close>, \<open>endLocationFocused = true\<close> and \<open>travelState = NONE\<close>; the
  render that follows shows no omnibox and runs none of its effects.
\<close>

theorem backArrow_onPress_resets:
  "startLocation (screen (dispatch backArrow_onPress w)) = Null \<and>
   endLocation (screen (dispatch backArrow_onPress w)) = Null \<and>
   endLocationFocused (screen (dispatch backArrow_onPress w)) = True \<and>
   travelState (screen (dispatch backArrow_onPress w)) = NONE \<and>
   step env BackArrowPress w = Inr (dispatch backArrow_onPress w)"
  by (simp add: backArrow_onPress_def dispatch_Cons dispatch_Nil step_def render_def
      omniboxShown_def)

section \<open>Tapping a building\<close>

text \<open>
  C3. For every building \<open>B\<close>: a tap while \<open>travelState = NONE\<close> sets
  \<open>tappedBuilding\<close> to the id of \<open>B\<close> and makes the building information panel visible;
  a tap while \<open>travelState = PLANNING\<close> sets the focused endpoint (the end if
  \<open>endLocationFocused\<close>, else the start) to \<open>B\<close>, leaves \<open>showBuildingInfo\<close> as it was and
  does not show the panel.
\<close>

theorem onBuildingTap_NONE_or_PLANNING:
  "(travelState (screen w) = NONE \<longrightarrow>
      tappedBuilding (screen (dispatch (onBuildingTap (screen w) B) w)) = Val (id' B) \<and>
      buildingInformationVisible (screen (dispatch (onBuildingTap (screen w) B) w))) \<and>
   (travelState (screen w) = PLANNING \<longrightarrow>
      (if endLocationFocused (screen w)
       then endLocation (screen (dispatch (onBuildingTap (screen w) B) w)) = Val (OfBuilding B)
       else startLocation (screen (dispatch (onBuildingTap (screen w) B) w)) = Val (OfBuilding B)) \<and>
      showBuildingInfo (screen (dispatch (onBuildingTap (screen w) B) w)) = showBuildingInfo (screen w) \<and>
      \<not> buildingInformationVisible (screen (dispatch (onBuildingTap (screen w) B) w)))"
  by (simp add: handler_defs buildingInformationVisible_def)

theorem onBuildingTap_NONE_or_PLANNING_witness:
  "travelState (screen initialWorld) = NONE \<and>
   tappedBuilding (screen (dispatch (onBuildingTap (screen initialWorld) building_H) initialWorld))
     = Val ''H'' \<and>
   buildingInformationVisible
     (screen (dispatch (onBuildingTap (screen initialWorld) building_H) initialWorld)) \<and>
   travelState (screen (exampleWorld PLANNING True)) = PLANNING \<and>
   endLocationFocused (screen (exampleWorld PLANNING True)) \<and>
   endLocation (screen (dispatch (onBuildingTap (screen (exampleWorld PLANNING True)) building_H)
      (exampleWorld PLANNING True))) = Val (OfBuilding building_H) \<and>
   \<not> buildingInformationVisible
     (screen (dispatch (onBuildingTap (screen (exampleWorld PLANNING True)) building_H)
        (exampleWorld PLANNING True))) \<and>
   \<not> endLocationFocused (screen (exampleWorld PLANNING False)) \<and>
   startLocation (screen (dispatch (onBuildingTap (screen (exampleWorld PLANNING False)) building_H)
      (exampleWorld PLANNING False))) = Val (OfBuilding building_H) \<and>
   \<not> buildingInformationVisible
     (screen (dispatch (onBuildingTap (screen (exampleWorld PLANNING False)) building_H)
        (exampleWorld PLANNING False)))"
  using onBuildingTap_NONE_or_PLANNING [of initialWorld building_H]
    onBuildingTap_NONE_or_PLANNING [of "exampleWorld PLANNING True" building_H]
    onBuildingTap_NONE_or_PLANNING [of "exampleWorld PLANNING False" building_H]
  by (simp add: exampleWorld_simps initialWorld_simps building_H_def)

text \<open>
  C10. A tap on a building while \<open>travelState = PLANNING\<close> sets the focused endpoint (the
  end if \<open>endLocationFocused\<close>, else the start) to the tapped building and, in addition,
  writes \<open>tappedBuilding\<close>: it becomes the id of the tapped building, whatever it held
  before, although the information panel is not shown.
\<close>

theorem onBuildingTap_PLANNING_writes_tappedBuilding:
  "travelState (screen w) = PLANNING \<Longrightarrow>
   tappedBuilding (screen (dispatch (onBuildingTap (screen w) B) w)) = Val (id' B) \<and>
   (if endLocationFocused (screen w)
    then endLocation (screen (dispatch (onBuildingTap (screen w) B) w)) = Val (OfBuilding B) \<and>
         startLocation (screen (dispatch (onBuildingTap (screen w) B) w)) = startLocation (screen w)
    else startLocation (screen (dispatch (onBuildingTap (screen w) B) w)) = Val (OfBuilding B) \<and>
         endLocation (screen (dispatch (onBuildingTap (screen w) B) w)) = endLocation (screen w)) \<and>
   \<not> buildingInformationVisible (screen (dispatch (onBuildingTap (screen w) B) w))"
  by (simp add: handler_defs buildingInformationVisible_def)

theorem onBuildingTap_PLANNING_writes_tappedBuilding_witness:
  "travelState (screen (exampleWorld PLANNING True)) = PLANNING \<and>
   endLocationFocused (screen (exampleWorld PLANNING True)) \<and>
   tappedBuilding (screen (exampleWorld PLANNING True)) = Null \<and>
   tappedBuilding (screen (dispatch (onBuildingTap (screen (exampleWorld PLANNING True)) building_H)
      (exampleWorld PLANNING True))) = Val ''H'' \<and>
   endLocation (screen (dispatch (onBuildingTap (screen (exampleWorld PLANNING True)) building_H)
      (exampleWorld PLANNING True))) = Val (OfBuilding building_H) \<and>
   startLocation (screen (dispatch (onBuildingTap (screen (exampleWorld PLANNING True)) building_H)
      (exampleWorld PLANNING True))) = Null \<and>
   \<not> buildingInformationVisible
     (screen (dispatch (onBuildingTap (screen (exampleWorld PLANNING True)) building_H)
        (exampleWorld PLANNING True))) \<and>
   travelState (screen (exampleWorld PLANNING False)) = PLANNING \<and>
   \<not> endLocationFocused (screen (exampleWorld PLANNING False)) \<and>
   tappedBuilding (screen (dispatch (onBuildingTap (screen (exampleWorld PLANNING False)) building_H)
      (exampleWorld PLANNING False))) = Val ''H'' \<and>
   startLocation (screen (dispatch (onBuildingTap (screen (exampleWorld PLANNING False)) building_H)
      (exampleWorld PLANNING False))) = Val (OfBuilding building_H) \<and>
   endLocation (screen (dispatch (onBuildingTap (screen (exampleWorld PLANNING False)) building_H)
      (exampleWorld PLANNING False))) = Val (OfPOI cafe)"
proof -
  have p: "travelState (screen (exampleWorld PLANNING True)) = PLANNING"
    and q: "travelState (screen (exampleWorld PLANNING False)) = PLANNING"
    by (simp_all add: exampleWorld_simps)
  from onBuildingTap_PLANNING_writes_tappedBuilding [OF p, of building_H]
    onBuildingTap_PLANNING_writes_tappedBuilding [OF q, of building_H] p q
  show ?thesis
    by (simp add: exampleWorld_simps building_H_def)
qed

section \<open>The travel-mode switcher\<close>

text \<open>
  C4, as stated, fails. The claim says that selecting any of the modes car, accessible,
  walking, bus and shuttle passes it to \<open>setTravelMode\<close> and highlights it. The car button
  has no handler: no element of the switcher passes \<open>CAR\<close>, and the car button is not
  highlighted even when the \<open>travelMode\<close> prop is \<open>CAR\<close>.
\<close>

theorem travelModeSwitcher_car_has_no_handler:
  "icon (travelModeSwitcher (Val CAR) ! travelModeButton CAR) = ''car'' \<and>
   onPressOut (travelModeSwitcher (Val CAR) ! travelModeButton CAR) \<noteq> Some CAR \<and>
   \<not> selected (travelModeSwitcher (Val CAR) ! travelModeButton CAR) \<and>
   Some CAR \<notin> set (map onPressOut (travelModeSwitcher (Val CAR)))"
  by (simp add: travelModeSwitcher_def)

text \<open>
  C4, amended. For the modes accessible and walking, the mode's button carries a press
  handler that calls the \<open>setTravelMode\<close> prop with that mode: the press passes the mode
  upward when the parent supplies the prop and throws when the prop is \<open>undefined\<close> or
  \<open>null\<close>, as it is under \<open>MapScreen\<close>. The button is highlighted exactly when the
  \<open>travelMode\<close> prop equals its mode, so no button is highlighted when the prop is
  \<open>undefined\<close> or \<open>null\<close>, and when the prop holds the mode no other button is
  highlighted. The car, bus and shuttle buttons have no press handler: pressing them
  calls nothing, no element of the switcher passes these modes upward, and they are
  never highlighted.
\<close>

theorem travelModeSwitcher_modes:
  "(m = ACCESSIBLE \<or> m = WALKING \<longrightarrow>
      onPressOut (travelModeSwitcher travelMode ! travelModeButton m) = Some m \<and>
      (selected (travelModeSwitcher travelMode ! travelModeButton m) \<longleftrightarrow> travelMode = Val m) \<and>
      (\<forall>i<length (travelModeSwitcher (Val m)).
         selected (travelModeSwitcher (Val m) ! i) \<longleftrightarrow> i = travelModeButton m) \<and>
      pressOut (Val f) (travelModeSwitcher travelMode ! travelModeButton m) = Inr (Some (f m)) \<and>
      pressOut (Undefined :: (TravelMode \<Rightarrow> 'a) js)
        (travelModeSwitcher travelMode ! travelModeButton m) = Inl TypeError \<and>
      pressOut (Null :: (TravelMode \<Rightarrow> 'a) js)
        (travelModeSwitcher travelMode ! travelModeButton m) = Inl TypeError \<and>
      pressOut MapScreen_setTravelMode (travelModeSwitcher MapScreen_travelMode ! travelModeButton m)
        = Inl TypeError) \<and>
   (m \<noteq> ACCESSIBLE \<and> m \<noteq> WALKING \<longrightarrow>
      onPressOut (travelModeSwitcher travelMode ! travelModeButton m) = None \<and>
      \<not> selected (travelModeSwitcher travelMode ! travelModeButton m) \<and>
      (\<forall>b\<in>set (travelModeSwitcher travelMode). onPressOut b \<noteq> Some m) \<and>
      (\<forall>b\<in>set (travelModeSwitcher (Val m)). \<not> selected b) \<and>
      pressOut (g :: (TravelMode \<Rightarrow> 'a) js) (travelModeSwitcher travelMode ! travelModeButton m)
        = Inr None) \<and>
   (travelMode = Undefined \<or> travelMode = Null \<longrightarrow>
      (\<forall>b\<in>set (travelModeSwitcher travelMode). \<not> selected b)) \<and>
   (\<forall>b\<in>set (travelModeSwitcher MapScreen_travelMode). \<not> selected b) \<and>
   (\<forall>i<length (travelModeSwitcher travelMode).
      selected (travelModeSwitcher travelMode ! i) \<longleftrightarrow>
        (i = travelModeButton ACCESSIBLE \<and> travelMode = Val ACCESSIBLE) \<or>
        (i = travelModeButton WALKING \<and> travelMode = Val WALKING))"
  by (cases m)
    (auto simp: travelModeSwitcher_def pressOut_def MapScreen_travelMode_def
      MapScreen_setTravelMode_def less_Suc_eq numeral_eq_Suc)

theorem travelModeSwitcher_modes_witness:
  "onPressOut (travelModeSwitcher Undefined ! travelModeButton WALKING) = Some WALKING \<and>
   selected (travelModeSwitcher (Val WALKING) ! travelModeButton WALKING) \<and>
   \<not> selected (travelModeSwitcher (Val WALKING) ! travelModeButton ACCESSIBLE) \<and>
   \<not> selected (travelModeSwitcher Undefined ! travelModeButton WALKING) \<and>
   \<not> selected (travelModeSwitcher (Val ACCESSIBLE) ! travelModeButton WALKING) \<and>
   pressOut (Val (\<lambda>mode. [mode])) (travelModeSwitcher (Val ACCESSIBLE) ! travelModeButton WALKING)
     = Inr (Some [WALKING]) \<and>
   pressOut MapScreen_setTravelMode (travelModeSwitcher MapScreen_travelMode ! travelModeButton WALKING)
     = Inl TypeError \<and>
   onPressOut (travelModeSwitcher Undefined ! travelModeButton BUS) = None \<and>
   \<not> selected (travelModeSwitcher (Val BUS) ! travelModeButton BUS) \<and>
   pressOut (Val (\<lambda>mode. [mode])) (travelModeSwitcher (Val BUS) ! travelModeButton BUS) = Inr None"
proof -
  have w: "WALKING = ACCESSIBLE \<or> WALKING = WALKING" and b: "BUS \<noteq> ACCESSIBLE \<and> BUS \<noteq> WALKING"
    by simp_all
  have n: "travelModeButton ACCESSIBLE < length (travelModeSwitcher (Val WALKING))"
    "travelModeButton ACCESSIBLE \<noteq> travelModeButton WALKING"
    by (simp_all add: travelModeSwitcher_def)
  have d: "(Undefined :: TravelMode js) \<noteq> Val WALKING" "Val ACCESSIBLE \<noteq> Val WALKING"
    by simp_all
  note tU = travelModeSwitcher_modes [of WALKING Undefined "\<lambda>mode. [mode]"]
  note tW = travelModeSwitcher_modes [of WALKING "Val WALKING" "\<lambda>mode. [mode]"]
  note tA = travelModeSwitcher_modes [of WALKING "Val ACCESSIBLE" "\<lambda>mode. [mode]"]
  note tB = travelModeSwitcher_modes [of BUS "Val BUS" "\<lambda>mode. [mode]" "Val (\<lambda>mode. [mode])"]
  note tBU = travelModeSwitcher_modes [of BUS Undefined "\<lambda>mode. [mode]"]
  from tU w d have 1: "onPressOut (travelModeSwitcher Undefined ! travelModeButton WALKING) = Some WALKING"
    and 2: "\<not> selected (travelModeSwitcher Undefined ! travelModeButton WALKING)"
    and 3: "pressOut MapScreen_setTravelMode
       (travelModeSwitcher MapScreen_travelMode ! travelModeButton WALKING) = Inl TypeError"
    by blast+
  from tW w have 4: "selected (travelModeSwitcher (Val WALKING) ! travelModeButton WALKING)"
    and sel: "\<forall>i<length (travelModeSwitcher (Val WALKING)).
      selected (travelModeSwitcher (Val WALKING) ! i) \<longleftrightarrow> i = travelModeButton WALKING"
    by blast+
  from sel n have 5: "\<not> selected (travelModeSwitcher (Val WALKING) ! travelModeButton ACCESSIBLE)"
    by blast
  from tA w d have 6: "\<not> selected (travelModeSwitcher (Val ACCESSIBLE) ! travelModeButton WALKING)"
    and 7: "pressOut (Val (\<lambda>mode. [mode]))
       (travelModeSwitcher (Val ACCESSIBLE) ! travelModeButton WALKING) = Inr (Some [WALKING])"
    by blast+
  from tBU b have 8: "onPressOut (travelModeSwitcher Undefined ! travelModeButton BUS) = None"
    by blast
  from tB b have 9: "\<not> selected (travelModeSwitcher (Val BUS) ! travelModeButton BUS)"
    and 10: "pressOut (Val (\<lambda>mode. [mode]))
       (travelModeSwitcher (Val BUS) ! travelModeButton BUS) = Inr None"
    by blast+
  from 1 2 3 4 5 6 7 8 9 10 show ?thesis by blast
qed

section \<open>A failed location lookup\<close>

text \<open>
  C5. When the current-location lookup fails, the \<open>catch\<close> callback changes the start
  field's display text to the empty string and nothing else: \<open>currentLocation\<close> and
  \<open>startLocation\<close> keep their values, no further lookup is issued, and the render that
  follows changes no slot.
\<close>

theorem getCurrentLocationAsync_catch_clears_display:
  "dispatch getCurrentLocationAsync_catch w = w\<lparr>screen := (screen w)\<lparr>startLocationDisplay := []\<rparr>\<rparr> \<and>
   currentLocation (screen (dispatch getCurrentLocationAsync_catch w)) = currentLocation (screen w) \<and>
   startLocation (screen (dispatch getCurrentLocationAsync_catch w)) = startLocation (screen w) \<and>
   startLocationDisplay (screen (dispatch getCurrentLocationAsync_catch w)) = [] \<and>
   pending (dispatch getCurrentLocationAsync_catch w) = pending w \<and>
   (\<forall>w'. step env (LookupRejected i) w = Inr w' \<longrightarrow>
      screen w' = (screen w)\<lparr>startLocationDisplay := []\<rparr> \<and>
      pending w' = take i (pending w) @ drop (Suc i) (pending w))"
  by (auto simp: getCurrentLocationAsync_catch_def dispatch_Cons dispatch_Nil step_def render_def
      omniboxShown_def split: if_splits js.splits)

theorem getCurrentLocationAsync_catch_clears_display_witness:
  "step exampleEnv (LookupRejected 0) worldPlanning
     = Inr (worldPlanning\<lparr>screen := (screen worldPlanning)\<lparr>startLocationDisplay := []\<rparr>, pending := []\<rparr>) \<and>
   screen (worldPlanning\<lparr>screen := (screen worldPlanning)\<lparr>startLocationDisplay := []\<rparr>, pending := []\<rparr>)
     = (screen worldPlanning)\<lparr>startLocationDisplay := []\<rparr> \<and>
   pending (worldPlanning\<lparr>screen := (screen worldPlanning)\<lparr>startLocationDisplay := []\<rparr>, pending := []\<rparr>)
     = take 0 (pending worldPlanning) @ drop (Suc 0) (pending worldPlanning)"
proof -
  have s: "step exampleEnv (LookupRejected 0) worldPlanning
     = Inr (worldPlanning\<lparr>screen := (screen worldPlanning)\<lparr>startLocationDisplay := []\<rparr>, pending := []\<rparr>)"
    by (simp add: step_def render_def getCurrentLocationAsync_catch_def dispatch_Cons dispatch_Nil
        omniboxShown_def worldPlanning_def initialState_def)
  from getCurrentLocationAsync_catch_clears_display [of worldPlanning exampleEnv 0] s
  show ?thesis by blast
qed

section \<open>Which endpoint a selection goes to\<close>

text \<open>
  C6, as stated, fails. The claim says that every building tap made while the omnibox
  is shown goes to the start endpoint when \<open>endLocationFocused\<close> is false. The omnibox is
  shown while \<open>travelState\<close> is \<open>TRAVELLING\<close>, and there a building tap sets no endpoint:
  the start endpoint stays \<open>null\<close>.
\<close>

theorem onBuildingTap_TRAVELLING_sets_no_endpoint:
  "omniboxShown (screen (exampleWorld TRAVELLING False)) \<and>
   \<not> endLocationFocused (screen (exampleWorld TRAVELLING False)) \<and>
   startLocation (screen (dispatch (onBuildingTap (screen (exampleWorld TRAVELLING False)) building_H)
      (exampleWorld TRAVELLING False))) = Null \<and>
   startLocation (screen (dispatch (onBuildingTap (screen (exampleWorld TRAVELLING False)) building_H)
      (exampleWorld TRAVELLING False))) \<noteq> Val (OfBuilding building_H)"
  by (simp add: handler_defs exampleWorld_simps omniboxShown_def)

text \<open>
  C6, amended. An autocomplete selection and a tap on a point of interest set the end
  endpoint and leave the start endpoint alone when \<open>endLocationFocused\<close> is true, and set
  the start endpoint and leave the end endpoint alone when it is false. A tap on a
  building does the same while \<open>travelState\<close> is \<open>PLANNING\<close>; while it is \<open>TRAVELLING\<close>
  a tap on a building changes neither endpoint.
\<close>

theorem selection_goes_to_focused_endpoint:
  "(endLocationFocused (screen w) \<longrightarrow>
      endLocation (screen (dispatch (autocomplete_setLocation (screen w) l) w)) = l \<and>
      startLocation (screen (dispatch (autocomplete_setLocation (screen w) l) w))
        = startLocation (screen w) \<and>
      endLocation (screen (dispatch (onPOIMarkerPress env (screen w) poi) w)) = map_js OfPOI poi \<and>
      startLocation (screen (dispatch (onPOIMarkerPress env (screen w) poi) w))
        = startLocation (screen w)) \<and>
   (\<not> endLocationFocused (screen w) \<longrightarrow>
      startLocation (screen (dispatch (autocomplete_setLocation (screen w) l) w)) = l \<and>
      endLocation (screen (dispatch (autocomplete_setLocation (screen w) l) w))
        = endLocation (screen w) \<and>
      startLocation (screen (dispatch (onPOIMarkerPress env (screen w) poi) w)) = map_js OfPOI poi \<and>
      endLocation (screen (dispatch (onPOIMarkerPress env (screen w) poi) w))
        = endLocation (screen w)) \<and>
   (travelState (screen w) = PLANNING \<and> endLocationFocused (screen w) \<longrightarrow>
      endLocation (screen (dispatch (onBuildingTap (screen w) B) w)) = Val (OfBuilding B) \<and>
      startLocation (screen (dispatch (onBuildingTap (screen w) B) w)) = startLocation (screen w)) \<and>
   (travelState (screen w) = PLANNING \<and> \<not> endLocationFocused (screen w) \<longrightarrow>
      startLocation (screen (dispatch (onBuildingTap (screen w) B) w)) = Val (OfBuilding B) \<and>
      endLocation (screen (dispatch (onBuildingTap (screen w) B) w)) = endLocation (screen w)) \<and>
   (travelState (screen w) = TRAVELLING \<longrightarrow>
      startLocation (screen (dispatch (onBuildingTap (screen w) B) w)) = startLocation (screen w) \<and>
      endLocation (screen (dispatch (onBuildingTap (screen w) B) w)) = endLocation (screen w))"
  by (simp add: handler_defs)

theorem selection_goes_to_focused_endpoint_witness:
  "endLocationFocused (screen (exampleWorld PLANNING True)) \<and>
   travelState (screen (exampleWorld PLANNING True)) = PLANNING \<and>
   endLocation (screen (dispatch (autocomplete_setLocation (screen (exampleWorld PLANNING True))
      (Val (OfBuilding building_H))) (exampleWorld PLANNING True))) = Val (OfBuilding building_H) \<and>
   startLocation (screen (dispatch (onPOIMarkerPress exampleEnv (screen (exampleWorld PLANNING True))
      (Val cafe)) (exampleWorld PLANNING True))) = Null \<and>
   endLocation (screen (dispatch (onBuildingTap (screen (exampleWorld PLANNING True)) building_H)
      (exampleWorld PLANNING True))) = Val (OfBuilding building_H) \<and>
   \<not> endLocationFocused (screen (exampleWorld PLANNING False)) \<and>
   travelState (screen (exampleWorld PLANNING False)) = PLANNING \<and>
   startLocation (screen (dispatch (autocomplete_setLocation (screen (exampleWorld PLANNING False))
      (Val (OfBuilding building_H))) (exampleWorld PLANNING False))) = Val (OfBuilding building_H) \<and>
   endLocation (screen (dispatch (onPOIMarkerPress exampleEnv (screen (exampleWorld PLANNING False))
      (Val cafe)) (exampleWorld PLANNING False))) = Val (OfPOI cafe) \<and>
   startLocation (screen (dispatch (onBuildingTap (screen (exampleWorld PLANNING False)) building_H)
      (exampleWorld PLANNING False))) = Val (OfBuilding building_H) \<and>
   travelState (screen (exampleWorld TRAVELLING False)) = TRAVELLING \<and>
   startLocation (screen (dispatch (onBuildingTap (screen (exampleWorld TRAVELLING False)) building_H)
      (exampleWorld TRAVELLING False))) = Null"
  using selection_goes_to_focused_endpoint
      [of "exampleWorld PLANNING True" "Val (OfBuilding building_H)" exampleEnv "Val cafe" building_H]
    selection_goes_to_focused_endpoint
      [of "exampleWorld PLANNING False" "Val (OfBuilding building_H)" exampleEnv "Val cafe" building_H]
    selection_goes_to_focused_endpoint
      [of "exampleWorld TRAVELLING False" "Val (OfBuilding building_H)" exampleEnv "Val cafe" building_H]
  by (simp add: exampleWorld_simps)

section \<open>Picking a departure time\<close>

text \<open>
  C7, as stated, fails. The claim says that a null pick applied to a state produced by a
  null pick leaves the state unchanged. Each null pick stores \<open>new Date()\<close> in the slot
  \<open>date\<close>, so a second null pick at a later clock reading changes that slot.
\<close>

theorem onDateChange_null_twice_changes_date:
  "onDateChange ''android'' 2000 Null (onDateChange ''android'' 1000 Null exampleOmnibox)
     \<noteq> onDateChange ''android'' 1000 Null exampleOmnibox \<and>
   date (onDateChange ''android'' 1000 Null exampleOmnibox) = 1000 \<and>
   date (onDateChange ''android'' 2000 Null (onDateChange ''android'' 1000 Null exampleOmnibox)) = 2000"
  by (simp add: onDateChange_def exampleOmnibox_def)

text \<open>
  C7, amended. A time-picker change whose picked date is null sets \<open>dateIsNow\<close> to true,
  stores the clock reading in \<open>date\<close> and sets \<open>showTimePicker\<close> to whether the platform is
  iOS; the departure text is then produced by \<open>showPickedTime\<close> with the flag set, so it
  reads ``now'' for every \<open>showPickedTime\<close> that returns ``now'' when the flag is set. A
  second null pick changes nothing but \<open>date\<close>, which takes the new clock reading, and
  leaves the state unchanged when the clock reading is the same.
\<close>

theorem onDateChange_null:
  "dateIsNow (onDateChange os now Null s) = True \<and>
   date (onDateChange os now Null s) = now \<and>
   showTimePicker (onDateChange os now Null s) = (os = ''ios'') \<and>
   timePickerButton_text showPickedTime (onDateChange os now Null s)
     = ''DEPART '' @ showPickedTime now True \<and>
   ((\<forall>d. showPickedTime d True = ''now'') \<longrightarrow>
      timePickerButton_text showPickedTime (onDateChange os now Null s) = ''DEPART now'' \<and>
      timePickerButton_text showPickedTime (onDateChange os later Null (onDateChange os now Null s))
        = ''DEPART now'') \<and>
   onDateChange os later Null (onDateChange os now Null s)
     = (onDateChange os now Null s)\<lparr>date := later\<rparr> \<and>
   (later = now \<longrightarrow>
      onDateChange os later Null (onDateChange os now Null s) = onDateChange os now Null s)"
  by (simp add: onDateChange_def timePickerButton_text_def)

theorem onDateChange_null_witness:
  "(\<forall>d::Date. (\<lambda>d isNow. if isNow then ''now'' else ''later'') d True = ''now'') \<and>
   timePickerButton_text (\<lambda>d isNow. if isNow then ''now'' else ''later'')
     (onDateChange ''android'' 1000 Null exampleOmnibox) = ''DEPART now'' \<and>
   dateIsNow (onDateChange ''android'' 1000 Null exampleOmnibox) = True \<and>
   onDateChange ''android'' 1000 Null (onDateChange ''android'' 1000 Null exampleOmnibox)
     = onDateChange ''android'' 1000 Null exampleOmnibox"
  using onDateChange_null
    [of "''android''" 1000 exampleOmnibox "\<lambda>d isNow. if isNow then ''now'' else ''later''" 1000]
  by simp

section \<open>Travel state and focused field\<close>

text \<open>
  C8. In every world reachable from the initial screen by the events, \<open>travelState = NONE\<close>
  implies \<open>endLocationFocused = true\<close>.
\<close>

theorem reachable_NONE_endLocationFocused:
  "reachable env w \<Longrightarrow> travelState (screen w) = NONE \<Longrightarrow> endLocationFocused (screen w) = True"
proof -
  assume "reachable env w"
  then have "travelInvariant w"
  proof (induction rule: reachable.induct)
    case reachable_initial
    show ?case by (simp add: travelInvariant_def initialWorld_def initialState_def)
  next
    case (reachable_step w e w')
    then show ?case using step_invariant by blast
  qed
  moreover assume "travelState (screen w) = NONE"
  ultimately show ?thesis by (simp add: travelInvariant_def)
qed

theorem reachable_NONE_endLocationFocused_witness:
  "reachable exampleEnv worldBack \<and> travelState (screen worldBack) = NONE \<and>
   endLocationFocused (screen worldBack) = True"
proof -
  have s1: "step exampleEnv (POIMarkerPress (Val cafe)) initialWorld = Inr worldPlanning"
    by (simp add: step_def render_def onPOIMarkerPress_def setUserCurrentLocation_def
        dispatch_def startLocation_effect_def omniboxShown_def initialWorld_def initialState_def
        worldPlanning_def exampleEnv_def)
  have s2: "step exampleEnv StartInputFocus worldPlanning = Inr worldStartFocused"
    by (simp add: step_def render_def searchInputInitialLocation_onFocus_def dispatch_def
        omniboxShown_def worldPlanning_def worldStartFocused_def initialState_def)
  have s3: "step exampleEnv BackArrowPress worldStartFocused = Inr worldBack"
    by (simp add: step_def render_def backArrow_onPress_def dispatch_def omniboxShown_def
        worldPlanning_def worldStartFocused_def worldBack_def initialState_def)
  have r1: "reachable exampleEnv worldPlanning"
    by (rule reachable_step [OF reachable_initial _ s1]) simp
  have r2: "reachable exampleEnv worldStartFocused"
    by (rule reachable_step [OF r1 _ s2]) (simp add: omniboxShown_def worldPlanning_def)
  have r3: "reachable exampleEnv worldBack"
    by (rule reachable_step [OF r2 _ s3])
      (simp add: omniboxShown_def worldPlanning_def worldStartFocused_def)
  have t: "travelState (screen worldBack) = NONE"
    by (simp add: worldBack_def initialState_def)
  from reachable_NONE_endLocationFocused [OF r3 t] r3 t show ?thesis by simp
qed

section \<open>Mounting the omnibox\<close>

text \<open>
  C9. The initialiser of the omnibox reads \<open>endLocation.displayName\<close> without a guard:
  it throws exactly when \<open>endLocation\<close> is \<open>null\<close> or \<open>undefined\<close>, and yields the local
  state exactly when the end endpoint is set. Pressing a point of interest with a
  \<open>null\<close> selection while the end field is focused leads to such a mount: the omnibox
  is shown, the end endpoint is \<open>null\<close>, and the render throws.
\<close>

theorem OmniboxDirections_init_needs_endLocation:
  "(OmniboxDirections_init now props = Inl TypeError \<longleftrightarrow>
      endLocation props = Null \<or> endLocation props = Undefined) \<and>
   ((\<exists>st. OmniboxDirections_init now props = Inr st) \<longleftrightarrow> (\<exists>m. endLocation props = Val m)) \<and>
   (endLocationFocused (screen w) \<longrightarrow>
      omniboxShown (screen (dispatch (onPOIMarkerPress env (screen w) Null) w)) \<and>
      endLocation (screen (dispatch (onPOIMarkerPress env (screen w) Null) w)) = Null \<and>
      OmniboxDirections_init now (screen (dispatch (onPOIMarkerPress env (screen w) Null) w))
        = Inl TypeError \<and>
      step env (POIMarkerPress Null) w = Inl TypeError)"
  by (auto simp: OmniboxDirections_init_def handler_defs omniboxShown_def step_def render_def
      split: js.splits)

theorem OmniboxDirections_init_needs_endLocation_witness:
  "endLocationFocused (screen initialWorld) \<and>
   omniboxShown (screen (dispatch (onPOIMarkerPress exampleEnv (screen initialWorld) Null) initialWorld)) \<and>
   OmniboxDirections_init 0 (screen (dispatch (onPOIMarkerPress exampleEnv (screen initialWorld) Null)
      initialWorld)) = Inl TypeError \<and>
   step exampleEnv (POIMarkerPress Null) initialWorld = Inl TypeError \<and>
   OmniboxDirections_init 0 (screen (exampleWorld PLANNING True))
     = Inr \<lparr> endLocationDisplay = ''Cafe'', startLocationSearchResults = Null,
             endLocationSearchResults = Null, date = 0, dateIsNow = True, showTimePicker = False \<rparr>"
proof -
  have f: "endLocationFocused (screen initialWorld)"
    by (simp add: initialWorld_simps)
  have "\<exists>m. endLocation (screen (exampleWorld PLANNING True)) = Val m"
    by (simp add: exampleWorld_simps)
  with OmniboxDirections_init_needs_endLocation [of 0 "screen (exampleWorld PLANNING True)"]
  obtain st where "OmniboxDirections_init 0 (screen (exampleWorld PLANNING True)) = Inr st"
    by blast
  then have "OmniboxDirections_init 0 (screen (exampleWorld PLANNING True))
     = Inr \<lparr> endLocationDisplay = ''Cafe'', startLocationSearchResults = Null,
             endLocationSearchResults = Null, date = 0, dateIsNow = True, showTimePicker = False \<rparr>"
    by (simp add: OmniboxDirections_init_def exampleWorld_simps cafe_def)
  with OmniboxDirections_init_needs_endLocation [of 0 _ initialWorld exampleEnv] f
  show ?thesis by blast
qed

end
